theory Spec2Isabelle
  imports Complex_Main "HOL-Library.Log_Nat" "HOL-Library.AList"
begin

section \<open>Python numbers\<close>

text \<open>
  The amounts of an invoice are Python \<open>float\<close>s: IEEE 754 binary64 values. A finite value
  is kept as the rational number it denotes; the two infinities and NaN are values of
  their own (a JSON body can carry \<open>1e999\<close>, which the parser reads as infinity, and
  \<open>ge=0\<close> lets it through). Every arithmetic operation computes the exact rational result
  and rounds it to the nearest double, ties to the even mantissa, overflowing to an
  infinity. The sign of zero is not kept: Python's \<open>==\<close> does not see it, and neither
  does any comparison below. An \<open>int\<close> that meets a float (the \<open>0\<close> that \<open>sum\<close> starts
  from, the \<open>0\<close> of \<open>max(total, 0)\<close>) is the float of the same value, and \<open>0 == 0.0\<close>
  in Python, so both are \<open>Finite 0\<close> here. \<open>Finite\<close> takes any rational: the doubles
  are the results of \<open>to_double\<close>, and a theorem about every \<open>pyfloat\<close> holds for them.
\<close>

datatype pyfloat = Finite rat | PosInf | NegInf | NaN

definition pow2 :: "int \<Rightarrow> rat" where
  "pow2 k = (if 0 \<le> k then of_int (2 ^ nat k) else 1 / of_int (2 ^ nat (- k)))"

definition round_half_even :: "rat \<Rightarrow> int" where
  "round_half_even x =
     (let n = \<lfloor>x\<rfloor>; r = x - of_int n
      in if r < 1 / 2 then n
         else if 1 / 2 < r then n + 1
         else if even n then n else n + 1)"

text \<open>\<open>ilog2 a\<close> is the binary exponent of a positive rational: \<open>2 ^ e \<le> a < 2 ^ (e + 1)\<close>.\<close>

definition ilog2 :: "rat \<Rightarrow> int" where
  "ilog2 a =
     (let (p, d) = quotient_of a;
          k = bitlen p - bitlen d
      in if pow2 k \<le> a then k else k - 1)"

text \<open>
  Rounding a positive rational to binary64: 53 bits of mantissa, so the spacing of the
  doubles around \<open>a\<close> is \<open>2 ^ (ilog2 a - 52)\<close>, and never finer than \<open>2 ^ - 1074\<close> (the
  subnormal range). A result of \<open>2 ^ 1024\<close> or more is infinity.
\<close>

definition to_double_pos :: "rat \<Rightarrow> pyfloat" where
  "to_double_pos a =
     (let q = max (ilog2 a - 52) (- 1074);
          r = of_int (round_half_even (a / pow2 q)) * pow2 q
      in if pow2 1024 \<le> r then PosInf else Finite r)"

fun py_neg :: "pyfloat \<Rightarrow> pyfloat" where
  "py_neg (Finite a) = Finite (- a)"
| "py_neg PosInf = NegInf"
| "py_neg NegInf = PosInf"
| "py_neg NaN = NaN"

definition to_double :: "rat \<Rightarrow> pyfloat" where
  "to_double x =
     (if x = 0 then Finite 0
      else if 0 < x then to_double_pos x
      else py_neg (to_double_pos (- x)))"

fun py_add :: "pyfloat \<Rightarrow> pyfloat \<Rightarrow> pyfloat" where
  "py_add (Finite a) (Finite b) = to_double (a + b)"
| "py_add NaN y = NaN"
| "py_add x NaN = NaN"
| "py_add PosInf NegInf = NaN"
| "py_add NegInf PosInf = NaN"
| "py_add PosInf y = PosInf"
| "py_add NegInf y = NegInf"
| "py_add (Finite a) y = y"

definition py_sub :: "pyfloat \<Rightarrow> pyfloat \<Rightarrow> pyfloat" where
  "py_sub x y = py_add x (py_neg y)"

definition inf_times :: "pyfloat \<Rightarrow> rat \<Rightarrow> pyfloat" where
  "inf_times i a = (if a = 0 then NaN else if 0 < a then i else py_neg i)"

fun py_mul :: "pyfloat \<Rightarrow> pyfloat \<Rightarrow> pyfloat" where
  "py_mul (Finite a) (Finite b) = to_double (a * b)"
| "py_mul NaN y = NaN"
| "py_mul x NaN = NaN"
| "py_mul (Finite a) y = inf_times y a"
| "py_mul x (Finite b) = inf_times x b"
| "py_mul PosInf y = y"
| "py_mul NegInf y = py_neg y"

text \<open>Comparisons: every comparison with NaN is false.\<close>

fun py_lt :: "pyfloat \<Rightarrow> pyfloat \<Rightarrow> bool" where
  "py_lt (Finite a) (Finite b) = (a < b)"
| "py_lt NaN y = False"
| "py_lt x NaN = False"
| "py_lt x NegInf = False"
| "py_lt NegInf y = True"
| "py_lt PosInf y = False"
| "py_lt (Finite a) PosInf = True"

fun py_ge :: "pyfloat \<Rightarrow> pyfloat \<Rightarrow> bool" where
  "py_ge (Finite a) (Finite b) = (b \<le> a)"
| "py_ge NaN y = False"
| "py_ge x NaN = False"
| "py_ge x NegInf = True"
| "py_ge NegInf y = False"
| "py_ge PosInf y = True"
| "py_ge (Finite a) PosInf = False"

text \<open>
  \<open>max(a, b)\<close> keeps its first argument unless the second is greater, so \<open>max(nan, 0)\<close>
  is NaN.
\<close>

definition py_max :: "pyfloat \<Rightarrow> pyfloat \<Rightarrow> pyfloat" where
  "py_max a b = (if py_lt a b then b else a)"

text \<open>
  \<open>round(x, ndigits)\<close> on a float: an infinity or NaN is returned as it is, and so is
  any float when \<open>ndigits\<close> is beyond 323; otherwise the exact value is rounded to
  \<open>ndigits\<close> decimal places, ties to even, and the decimal result is read back as the
  nearest double.
\<close>

fun py_round :: "pyfloat \<Rightarrow> nat \<Rightarrow> pyfloat" where
  "py_round (Finite x) ndigits =
     (if 323 < ndigits then Finite x
      else to_double (of_int (round_half_even (x * 10 ^ ndigits)) / 10 ^ ndigits))"
| "py_round x ndigits = x"

text \<open>
  \<open>sum(xs)\<close> adds the items to \<open>0\<close> from left to right. (CPython from 3.12 on carries a
  compensation term through a sum of floats, which can change the last bit of a sum of
  several items; a sum of no item or of one item is the same either way, and the
  evaluations below have at most one item. The general theorems state what is stored in
  terms of \<open>py_sum\<close> and do not depend on how it adds.)
\<close>

definition py_sum :: "pyfloat list \<Rightarrow> pyfloat" where
  "py_sum xs = foldl py_add (Finite 0) xs"


section \<open>The request body and its validation\<close>

text \<open>
  \<open>POST /api/invoices\<close> declares its body as \<open>CreateInvoiceRequest\<close>, a subclass of the
  \<open>Invoice\<close> model of \<open>schemas.py\<close> that adds nothing. The framework validates the JSON
  body against the model before the handler runs. For each key, the validator of the
  declared type (\<open>str\<close>, \<open>float\<close>, \<open>date\<close>, \<open>EmailStr\<close>, \<open>Optional[...]\<close>) belongs to
  the validation library; what \<open>schemas.py\<close> decides is which keys are required, which
  have a default and which carry \<open>ge=0\<close>. A key of the body is therefore given here by
  the outcome of its type validator: the key is \<open>Missing\<close>, its value is \<open>Invalid\<close> for
  the declared type (a wrong type, a malformed e-mail address, a malformed date), or the
  validator yields the value \<open>Given v\<close>. For an \<open>Optional\<close> key, \<open>Given None\<close> is an
  explicit \<open>null\<close>.

  A validation error echoes the input it rejects, and the framework has to write that
  input as JSON when it answers. Python's parser reads \<open>1e999\<close>, \<open>Infinity\<close> and \<open>NaN\<close>
  in a body as floats that JSON cannot hold, so every part of the body records whether
  it can be written back: \<open>Invalid r\<close> carries the flag \<open>r\<close>, true when the rejected
  value holds no infinite or NaN number.
\<close>

datatype 'a field = Missing | Invalid bool | Given 'a

text \<open>
  The value of a \<open>float\<close> key is a JSON number, read as the nearest double (\<open>Number\<close>),
  or a string or boolean that the validator converts to a float (\<open>Coerced\<close>; the string
  \<open>"inf"\<close> gives an infinite float although the string itself is plain JSON).
\<close>

datatype number_in = Number pyfloat | Coerced pyfloat

fun float :: "number_in \<Rightarrow> pyfloat" where
  "float (Number v) = v"
| "float (Coerced v) = v"

fun isfinite :: "pyfloat \<Rightarrow> bool" where
  "isfinite (Finite x) = True"
| "isfinite PosInf = False"
| "isfinite NegInf = False"
| "isfinite NaN = False"

datatype date = Date nat nat nat

text \<open>
  \<open>item_rest_in\<close> and \<open>rest_in\<close> stand for the keys the model does not declare:
  validation ignores them, and the flag is true when their values hold no infinite or NaN
  number.
\<close>

record InvoiceItem_in =
  description_in :: "string field"
  quantity_in :: "number_in field"
  unit_price_in :: "number_in field"
  item_rest_in :: bool

text \<open>
  An element of \<open>items\<close> is a JSON object or it is not; \<open>Not_object r\<close> carries the flag
  of the rejected element.
\<close>

datatype item_in = Not_object bool | Object InvoiceItem_in

record Invoice_in =
  customer_name_in :: "string field"
  customer_email_in :: "string field"
  customer_address_in :: "string option field"
  invoice_number_in :: "string option field"
  issue_date_in :: "date field"
  due_date_in :: "date option field"
  currency_in :: "string field"
  items_in :: "item_in list field"
  notes_in :: "string option field"
  status_in :: "string field"
  subtotal_in :: "number_in field"
  tax_in :: "number_in field"
  discount_in :: "number_in field"
  total_in :: "number_in field"
  rest_in :: bool

record InvoiceItem =
  description :: string
  quantity :: pyfloat
  unit_price :: pyfloat

record Invoice =
  customer_name :: string
  customer_email :: string
  customer_address :: "string option"
  invoice_number :: "string option"
  issue_date :: date
  due_date :: "date option"
  currency :: string
  items :: "InvoiceItem list"
  notes' :: "string option"
  status :: string
  subtotal :: pyfloat
  tax :: pyfloat
  discount :: pyfloat
  total :: pyfloat

text \<open>
  Whether a part of the body can be written back as JSON (\<open>json.dumps\<close> with
  \<open>allow_nan=False\<close>, as the framework's \<open>JSONResponse\<close> calls it): a number when it is
  finite; a text, a date given as text and \<open>null\<close> always; an object when all its values
  can.
\<close>

fun renderable_number :: "number_in \<Rightarrow> bool" where
  "renderable_number (Number v) = isfinite v"
| "renderable_number (Coerced v) = True"

definition renderable :: "('a \<Rightarrow> bool) \<Rightarrow> 'a field \<Rightarrow> bool" where
  "renderable value_ok f = (case f of Missing \<Rightarrow> True | Invalid r \<Rightarrow> r | Given v \<Rightarrow> value_ok v)"

definition plain :: "'a \<Rightarrow> bool" where
  "plain v = True"

definition renderable_InvoiceItem :: "InvoiceItem_in \<Rightarrow> bool" where
  "renderable_InvoiceItem item =
     (renderable plain (description_in item) \<and>
      renderable renderable_number (quantity_in item) \<and>
      renderable renderable_number (unit_price_in item) \<and>
      item_rest_in item)"

fun renderable_item :: "item_in \<Rightarrow> bool" where
  "renderable_item (Not_object r) = r"
| "renderable_item (Object item) = renderable_InvoiceItem item"

definition renderable_body :: "Invoice_in \<Rightarrow> bool" where
  "renderable_body b =
     (renderable plain (customer_name_in b) \<and>
      renderable plain (customer_email_in b) \<and>
      renderable plain (customer_address_in b) \<and>
      renderable plain (invoice_number_in b) \<and>
      renderable plain (issue_date_in b) \<and>
      renderable plain (due_date_in b) \<and>
      renderable plain (currency_in b) \<and>
      renderable (list_all renderable_item) (items_in b) \<and>
      renderable plain (notes_in b) \<and>
      renderable plain (status_in b) \<and>
      renderable renderable_number (subtotal_in b) \<and>
      renderable renderable_number (tax_in b) \<and>
      renderable renderable_number (discount_in b) \<and>
      renderable renderable_number (total_in b) \<and>
      rest_in b)"

text \<open>
  A validation error names the place of the offending value (\<open>body\<close>, then the key, then
  for a line item its index and key) and the kind of failure, and echoes its input: the
  offending value, or for a missing key the object that lacks it. Of the input the error
  keeps here whether it can be written as JSON. All the errors of a body are collected,
  in the order of the model's fields.
\<close>

datatype loc_part = Key string | Index nat

datatype error_type = missing | type_error | greater_than_equal

type_synonym verror = "loc_part list \<times> error_type \<times> bool"

definition input_renderable :: "verror \<Rightarrow> bool" where
  "input_renderable e = snd (snd e)"

text \<open>
  \<open>Field dflt obj loc f\<close> is one declaration \<open>name: T = dflt\<close> or \<open>name: T = Field(dflt)\<close>
  without a constraint, applied to the key's outcome \<open>f\<close>: \<open>dflt = None\<close> is the
  required marker \<open>...\<close>, and \<open>obj\<close> tells whether the object that holds the key can be
  written as JSON. \<open>Field_ge0\<close> is \<open>name: float = Field(dflt, ge=0)\<close>. A default is
  taken as it is, without being checked.
\<close>

definition Field :: "'a option \<Rightarrow> bool \<Rightarrow> loc_part list \<Rightarrow> 'a field \<Rightarrow> verror list + 'a" where
  "Field dflt obj loc f =
     (case f of
        Missing \<Rightarrow> (case dflt of None \<Rightarrow> Inl [(loc, missing, obj)] | Some d \<Rightarrow> Inr d)
      | Invalid r \<Rightarrow> Inl [(loc, type_error, r)]
      | Given v \<Rightarrow> Inr v)"

definition ge0 :: "pyfloat \<Rightarrow> bool" where
  "ge0 v = py_ge v (Finite 0)"

definition Field_ge0 :: "pyfloat option \<Rightarrow> bool \<Rightarrow> loc_part list \<Rightarrow> number_in field \<Rightarrow> verror list + pyfloat" where
  "Field_ge0 dflt obj loc f =
     (case f of
        Missing \<Rightarrow> (case dflt of None \<Rightarrow> Inl [(loc, missing, obj)] | Some d \<Rightarrow> Inr d)
      | Invalid r \<Rightarrow> Inl [(loc, type_error, r)]
      | Given n \<Rightarrow>
          if ge0 (float n) then Inr (float n)
          else Inl [(loc, greater_than_equal, renderable_number n)])"

text \<open>Building a model from validated fields, keeping the errors of every field.\<close>

fun ap :: "(verror list + ('a \<Rightarrow> 'b)) \<Rightarrow> (verror list + 'a) \<Rightarrow> verror list + 'b" where
  "ap (Inr f) (Inr x) = Inr (f x)"
| "ap (Inr f) (Inl e) = Inl e"
| "ap (Inl e) (Inr x) = Inl e"
| "ap (Inl e) (Inl e') = Inl (e @ e')"

definition validate_InvoiceItem :: "loc_part list \<Rightarrow> InvoiceItem_in \<Rightarrow> verror list + InvoiceItem" where
  "validate_InvoiceItem loc item =
     (let obj = renderable_InvoiceItem item in
      ap (ap (ap (Inr (\<lambda>d q u. \<lparr>description = d, quantity = q, unit_price = u\<rparr>))
        (Field None obj (loc @ [Key ''description'']) (description_in item)))
        (Field_ge0 (Some (Finite 1)) obj (loc @ [Key ''quantity'']) (quantity_in item)))
        (Field_ge0 None obj (loc @ [Key ''unit_price'']) (unit_price_in item)))"

fun validate_items :: "loc_part list \<Rightarrow> nat \<Rightarrow> item_in list \<Rightarrow> verror list + InvoiceItem list" where
  "validate_items loc i [] = Inr []"
| "validate_items loc i (x # xs) =
     ap (ap (Inr (#))
       (case x of
          Not_object r \<Rightarrow> Inl [(loc @ [Index i], type_error, r)]
        | Object item \<Rightarrow> validate_InvoiceItem (loc @ [Index i]) item))
       (validate_items loc (Suc i) xs)"

text \<open>\<open>items: List[InvoiceItem] = Field(default_factory=list)\<close>.\<close>

definition validate_items_field :: "loc_part list \<Rightarrow> item_in list field \<Rightarrow> verror list + InvoiceItem list" where
  "validate_items_field loc f =
     (case f of
        Missing \<Rightarrow> Inr []
      | Invalid r \<Rightarrow> Inl [(loc, type_error, r)]
      | Given xs \<Rightarrow> validate_items loc 0 xs)"

definition mk_Invoice ::
  "string \<Rightarrow> string \<Rightarrow> string option \<Rightarrow> string option \<Rightarrow> date \<Rightarrow> date option \<Rightarrow> string \<Rightarrow>
   InvoiceItem list \<Rightarrow> string option \<Rightarrow> string \<Rightarrow> pyfloat \<Rightarrow> pyfloat \<Rightarrow> pyfloat \<Rightarrow> pyfloat \<Rightarrow> Invoice" where
  "mk_Invoice cn ce ca nu isd dd cu its nt st sub tx di tot =
     \<lparr>customer_name = cn, customer_email = ce, customer_address = ca, invoice_number = nu,
      issue_date = isd, due_date = dd, currency = cu, items = its, notes' = nt, status = st,
      subtotal = sub, tax = tx, discount = di, total = tot\<rparr>"

definition validate_Invoice :: "Invoice_in \<Rightarrow> verror list + Invoice" where
  "validate_Invoice b =
     (let obj = renderable_body b in
      ap (ap (ap (ap (ap (ap (ap (ap (ap (ap (ap (ap (ap (ap (Inr mk_Invoice)
        (Field None obj [Key ''body'', Key ''customer_name''] (customer_name_in b)))
        (Field None obj [Key ''body'', Key ''customer_email''] (customer_email_in b)))
        (Field (Some None) obj [Key ''body'', Key ''customer_address''] (customer_address_in b)))
        (Field (Some None) obj [Key ''body'', Key ''invoice_number''] (invoice_number_in b)))
        (Field None obj [Key ''body'', Key ''issue_date''] (issue_date_in b)))
        (Field (Some None) obj [Key ''body'', Key ''due_date''] (due_date_in b)))
        (Field (Some ''USD'') obj [Key ''body'', Key ''currency''] (currency_in b)))
        (validate_items_field [Key ''body'', Key ''items''] (items_in b)))
        (Field (Some None) obj [Key ''body'', Key ''notes''] (notes_in b)))
        (Field (Some ''unpaid'') obj [Key ''body'', Key ''status''] (status_in b)))
        (Field_ge0 None obj [Key ''body'', Key ''subtotal''] (subtotal_in b)))
        (Field_ge0 (Some (Finite 0)) obj [Key ''body'', Key ''tax''] (tax_in b)))
        (Field_ge0 (Some (Finite 0)) obj [Key ''body'', Key ''discount''] (discount_in b)))
        (Field_ge0 None obj [Key ''body'', Key ''total''] (total_in b)))"


section \<open>Documents and the store\<close>

text \<open>
  The values a document holds. A \<open>date\<close> and a \<open>datetime\<close> (a date, then hour, minute,
  second and microsecond) are the values with an \<open>isoformat\<close> method.
\<close>

datatype pyval =
    PNone
  | PBool bool
  | PInt int
  | PStr string
  | PFloat pyfloat
  | PDate date
  | PDatetime date nat nat nat nat
  | PList "pyval list"
  | PDict "(string \<times> pyval) list"

text \<open>
  A Python \<open>dict\<close> with string keys, in insertion order: \<open>map_of d k\<close> reads a key and
  \<open>AList.update k v d\<close> is \<open>d[k] = v\<close> (the value is replaced in place, a new key goes
  to the end).
\<close>

type_synonym pydict = "(string \<times> pyval) list"

definition digit :: "nat \<Rightarrow> char" where
  "digit n = ''0123456789'' ! (n mod 10)"

definition pad2 :: "nat \<Rightarrow> string" where
  "pad2 n = [digit (n div 10), digit n]"

definition pad4 :: "nat \<Rightarrow> string" where
  "pad4 n = [digit (n div 1000), digit (n div 100), digit (n div 10), digit n]"

definition pad6 :: "nat \<Rightarrow> string" where
  "pad6 n = [digit (n div 100000), digit (n div 10000)] @ pad4 n"

fun date_isoformat :: "date \<Rightarrow> string" where
  "date_isoformat (Date y m d) = pad4 y @ ''-'' @ pad2 m @ ''-'' @ pad2 d"

text \<open>\<open>isoformat v\<close> is \<open>None\<close> when \<open>hasattr(v, "isoformat")\<close> is false.\<close>

fun isoformat :: "pyval \<Rightarrow> string option" where
  "isoformat (PDate d) = Some (date_isoformat d)"
| "isoformat (PDatetime d h mi s us) =
     Some (date_isoformat d @ ''T'' @ pad2 h @ '':'' @ pad2 mi @ '':'' @ pad2 s
           @ (if us = 0 then [] else ''.'' @ pad6 us))"
| "isoformat v = None"

text \<open>\<open>model_dump()\<close>: the dict of a validated model, one key for each declared field.\<close>

definition dump_str_opt :: "string option \<Rightarrow> pyval" where
  "dump_str_opt x = (case x of None \<Rightarrow> PNone | Some s \<Rightarrow> PStr s)"

definition dump_date_opt :: "date option \<Rightarrow> pyval" where
  "dump_date_opt x = (case x of None \<Rightarrow> PNone | Some d \<Rightarrow> PDate d)"

definition dump_item :: "InvoiceItem \<Rightarrow> pyval" where
  "dump_item item =
     PDict [(''description'', PStr (description item)),
            (''quantity'', PFloat (quantity item)),
            (''unit_price'', PFloat (unit_price item))]"

definition model_dump :: "Invoice \<Rightarrow> pydict" where
  "model_dump p =
     [(''customer_name'', PStr (customer_name p)),
      (''customer_email'', PStr (customer_email p)),
      (''customer_address'', dump_str_opt (customer_address p)),
      (''invoice_number'', dump_str_opt (invoice_number p)),
      (''issue_date'', PDate (issue_date p)),
      (''due_date'', dump_date_opt (due_date p)),
      (''currency'', PStr (currency p)),
      (''items'', PList (map dump_item (items p))),
      (''notes'', dump_str_opt (notes' p)),
      (''status'', PStr (status p)),
      (''subtotal'', PFloat (subtotal p)),
      (''tax'', PFloat (tax p)),
      (''discount'', PFloat (discount p)),
      (''total'', PFloat (total p))]"

text \<open>
  The store's identifiers. \<open>ObjectId(s)\<close> of a string takes a string of exactly 24
  characters and reads it with \<open>bytes.fromhex\<close>; it raises on a string of another
  length and on one \<open>fromhex\<close> refuses. \<open>fromhex\<close> reads bytes of two hexadecimal digits
  each and skips ASCII whitespace before a byte and at the end, so a 24-character string
  with whitespace in it is accepted and gives fewer than twelve bytes. \<open>str\<close> of an
  identifier is the hexadecimal text of its bytes in lower case, and an identifier is
  kept as that text. A string is the list of its characters; a character outside ASCII
  is neither a digit nor whitespace.
\<close>

datatype oid = Oid string

definition hexdigit :: "char \<Rightarrow> bool" where
  "hexdigit c = (c \<in> set ''0123456789abcdefABCDEF'')"

definition lower_hex :: "char \<Rightarrow> char" where
  "lower_hex c = (case map_of (zip ''ABCDEF'' ''abcdef'') c of None \<Rightarrow> c | Some l \<Rightarrow> l)"

definition isspace :: "char \<Rightarrow> bool" where
  "isspace c = (c \<in> set [CHR '' '', CHR 0x09, CHR 0x0A, CHR 0x0B, CHR 0x0C, CHR 0x0D])"

fun fromhex :: "string \<Rightarrow> string option" where
  "fromhex [] = Some []"
| "fromhex [c] = (if isspace c then Some [] else None)"
| "fromhex (c # d # cs) =
     (if isspace c then fromhex (d # cs)
      else if hexdigit c \<and> hexdigit d
        then map_option (\<lambda>bytes. lower_hex c # lower_hex d # bytes) (fromhex cs)
        else None)"

definition ObjectId :: "string \<Rightarrow> oid option" where
  "ObjectId s = (if length s = 24 then map_option Oid (fromhex s) else None)"

fun str_oid :: "oid \<Rightarrow> string" where
  "str_oid (Oid h) = h"

text \<open>
  A document as the driver returns it: the \<open>_id\<close> key, which holds an identifier of the
  store when it is present, and the other keys. The store is the global \<open>db\<close> of
  \<open>database.py\<close>: \<open>None\<close> when no connection is configured, otherwise the collections
  by name.
\<close>

record document =
  doc_id :: "oid option"
  doc_fields :: pydict

type_synonym database = "string \<Rightarrow> document list"

datatype store_error = StoreUnavailable

text \<open>
  Modelled from the spec: \<open>create_document\<close> of \<open>database.py\<close>, which is not among the
  sources. The spec (4.1): \<open>insert(collectionName, document)\<close> appends a document to the
  named collection and returns its newly generated unique identifier as a string; it
  fails with \<open>StoreUnavailable\<close> if no store connection exists. The identifier the store
  generates for the insert is the argument \<open>new_id\<close>.
\<close>

definition create_document ::
  "database option \<Rightarrow> oid \<Rightarrow> string \<Rightarrow> pydict \<Rightarrow> store_error + (database option \<times> string)" where
  "create_document db new_id collection_name data =
     (case db of
        None \<Rightarrow> Inl StoreUnavailable
      | Some d \<Rightarrow>
          Inr (Some (d(collection_name := d collection_name @ [\<lparr>doc_id = Some new_id, doc_fields = data\<rparr>])),
               str_oid new_id))"

text \<open>\<open>collection.find_one({"_id": oid})\<close>: the first document with that identifier.\<close>

definition find_one :: "document list \<Rightarrow> oid \<Rightarrow> document option" where
  "find_one docs i = find (\<lambda>doc. doc_id doc = Some i) docs"


section \<open>The HTTP surface\<close>

text \<open>
  What a route answers when it fails: an \<open>HTTPException\<close> the handler raises, with its
  status and detail; the framework's answer to a body that fails validation (422, with
  the list of errors); or its answer to an exception nobody handles (500).
\<close>

datatype http_error =
    HTTPException nat string
  | RequestValidationError "verror list"
  | InternalServerError

fun status_code :: "http_error \<Rightarrow> nat" where
  "status_code (HTTPException c detail) = c"
| "status_code (RequestValidationError errs) = 422"
| "status_code InternalServerError = 500"

record CreateInvoiceResponse =
  id' :: string
  share_url :: string

text \<open>
  \<open>create_invoice\<close>, the handler of \<open>POST /api/invoices\<close>, on a validated payload.
  \<open>data\<close> is the dump of the payload; its keys are the model's fields, so the handler's
  reads of \<open>data\<close> are field selections and its two assignments are record updates, and
  the dict is spelled out when it is handed to the store. \<open>float(...)\<close> of a float is
  the float itself. The result is the store after the request and the response.
\<close>

definition create_invoice ::
  "database option \<Rightarrow> oid \<Rightarrow> Invoice \<Rightarrow> database option \<times> (http_error + CreateInvoiceResponse)" where
  "create_invoice db new_id payload =
     (if db = None then (db, Inl (HTTPException 500 ''Database not available''))
      else
        let data = payload;
            subtotal = py_sum (map (\<lambda>item. py_mul (quantity item) (unit_price item)) (items data));
            data = data\<lparr>subtotal := py_round subtotal 2\<rparr>;
            total = py_sub (py_add subtotal (tax data)) (discount data);
            data = data\<lparr>total := py_round (py_max total (Finite 0)) 2\<rparr>
        in case create_document db new_id ''invoice'' (model_dump data) of
             Inl e \<Rightarrow> (db, Inl InternalServerError)
           | Inr (db', inserted_id) \<Rightarrow>
               (db', Inr \<lparr>id' = inserted_id, share_url = ''/public/invoices/'' @ inserted_id\<rparr>))"

text \<open>
  The framework's answer to a body that fails validation: status 422 with the list of
  errors, each with its input, written as JSON. Writing an infinite or NaN number raises
  \<open>ValueError\<close>, which nobody handles, so the answer is then 500.
\<close>

definition request_validation_exception_handler :: "verror list \<Rightarrow> http_error" where
  "request_validation_exception_handler errs =
     (if list_all input_renderable errs then RequestValidationError errs else InternalServerError)"

text \<open>The route: the body is validated first, and the handler runs only on a valid one.\<close>

definition post_api_invoices ::
  "database option \<Rightarrow> oid \<Rightarrow> Invoice_in \<Rightarrow> database option \<times> (http_error + CreateInvoiceResponse)" where
  "post_api_invoices db new_id body =
     (case validate_Invoice body of
        Inl errs \<Rightarrow> (db, Inl (request_validation_exception_handler errs))
      | Inr payload \<Rightarrow> create_invoice db new_id payload)"

text \<open>
  \<open>serialize_invoice\<close>: an empty document is returned as it is; otherwise \<open>id\<close> becomes
  the string of \<open>_id\<close> (which is removed) or \<open>None\<close>, and the four date keys are turned
  into ISO strings where they are present and hold a date.
\<close>

definition iso_key :: "pydict \<Rightarrow> string \<Rightarrow> pydict" where
  "iso_key doc key =
     (case map_of doc key of
        None \<Rightarrow> doc
      | Some v \<Rightarrow> (case isoformat v of None \<Rightarrow> doc | Some s \<Rightarrow> AList.update key (PStr s) doc))"

definition serialize_invoice :: "document \<Rightarrow> pydict" where
  "serialize_invoice doc =
     (if doc_id doc = None \<and> doc_fields doc = [] then []
      else
        foldl iso_key
          (AList.update ''id''
             (case doc_id doc of Some i \<Rightarrow> PStr (str_oid i) | None \<Rightarrow> PNone)
             (doc_fields doc))
          [''issue_date'', ''due_date'', ''created_at'', ''updated_at''])"

text \<open>\<open>doc.get(key)\<close> and \<open>doc.get(key, default)\<close>.\<close>

definition get_default :: "pydict \<Rightarrow> string \<Rightarrow> pyval \<Rightarrow> pyval" where
  "get_default doc key dflt = (case map_of doc key of None \<Rightarrow> dflt | Some v \<Rightarrow> v)"

definition get :: "pydict \<Rightarrow> string \<Rightarrow> pyval" where
  "get doc key = get_default doc key PNone"

text \<open>
  The lookup both read routes start with: \<open>ObjectId(invoice_id)\<close>, 400 when it raises;
  then \<open>db["invoice"].find_one\<close>, where subscripting a \<open>db\<close> that is \<open>None\<close> raises a
  \<open>TypeError\<close> nobody handles; then 404 when \<open>not doc\<close>, that is when nothing was found
  or the document is empty.
\<close>

definition get_invoice :: "database option \<Rightarrow> string \<Rightarrow> http_error + pydict" where
  "get_invoice db invoice_id =
     (case ObjectId invoice_id of
        None \<Rightarrow> Inl (HTTPException 400 ''Invalid invoice id'')
      | Some i \<Rightarrow>
          (case db of
             None \<Rightarrow> Inl InternalServerError
           | Some d \<Rightarrow>
               (case find_one (d ''invoice'') i of
                  None \<Rightarrow> Inl (HTTPException 404 ''Invoice not found'')
                | Some doc \<Rightarrow>
                    if doc_id doc = None \<and> doc_fields doc = []
                    then Inl (HTTPException 404 ''Invoice not found'')
                    else Inr (serialize_invoice doc))))"

text \<open>The dict that \<open>public_invoice\<close> returns, built from the serialized document.\<close>

definition public_view :: "pydict \<Rightarrow> pydict" where
  "public_view doc =
     [(''id'', get doc ''id''),
      (''invoice_number'', get doc ''invoice_number''),
      (''customer_name'', get doc ''customer_name''),
      (''customer_email'', get doc ''customer_email''),
      (''customer_address'', get doc ''customer_address''),
      (''issue_date'', get doc ''issue_date''),
      (''due_date'', get doc ''due_date''),
      (''currency'', get doc ''currency''),
      (''items'', get_default doc ''items'' (PList [])),
      (''notes'', get doc ''notes''),
      (''status'', get doc ''status''),
      (''subtotal'', get doc ''subtotal''),
      (''tax'', get doc ''tax''),
      (''discount'', get doc ''discount''),
      (''total'', get doc ''total'')]"

definition public_invoice :: "database option \<Rightarrow> string \<Rightarrow> http_error + pydict" where
  "public_invoice db invoice_id =
     (case ObjectId invoice_id of
        None \<Rightarrow> Inl (HTTPException 400 ''Invalid invoice id'')
      | Some i \<Rightarrow>
          (case db of
             None \<Rightarrow> Inl InternalServerError
           | Some d \<Rightarrow>
               (case find_one (d ''invoice'') i of
                  None \<Rightarrow> Inl (HTTPException 404 ''Invoice not found'')
                | Some doc \<Rightarrow>
                    if doc_id doc = None \<and> doc_fields doc = []
                    then Inl (HTTPException 404 ''Invoice not found'')
                    else
                      let doc = serialize_invoice doc
                      in Inr (public_view doc))))"


section \<open>Observations and the words of the specification\<close>

text \<open>The invoice collection of a store, and what a route answers.\<close>

definition invoices :: "database option \<Rightarrow> document list" where
  "invoices db = (case db of None \<Rightarrow> [] | Some d \<Rightarrow> d ''invoice'')"

definition response_status :: "http_error + 'a \<Rightarrow> nat" where
  "response_status r = (case r of Inl e \<Rightarrow> status_code e | Inr v \<Rightarrow> 200)"

definition failure :: "http_error + 'a \<Rightarrow> http_error option" where
  "failure r = (case r of Inl e \<Rightarrow> Some e | Inr v \<Rightarrow> None)"


text \<open>The fifteen keys of the public view, in the order the specification lists them.\<close>

definition public_keys :: "string list" where
  "public_keys =
     [''id'', ''invoice_number'', ''customer_name'', ''customer_email'', ''customer_address'',
      ''issue_date'', ''due_date'', ''currency'', ''items'', ''notes'', ''status'',
      ''subtotal'', ''tax'', ''discount'', ''total'']"











section \<open>Example requests\<close>

text \<open>
  A body with the required keys and nothing else. A number written in a body is the
  double nearest to the decimal: \<open>to_double (999 / 100)\<close> is the float \<open>9.99\<close>.
\<close>

definition minimal_request :: Invoice_in where
  "minimal_request =
     \<lparr>customer_name_in = Given ''Ada Lovelace'', customer_email_in = Given ''ada@example.com'',
      customer_address_in = Missing, invoice_number_in = Missing,
      issue_date_in = Given (Date 2024 1 31), due_date_in = Missing, currency_in = Missing,
      items_in = Missing, notes_in = Missing, status_in = Missing,
      subtotal_in = Given (Number (Finite 0)), tax_in = Missing, discount_in = Missing,
      total_in = Given (Number (Finite 0)), rest_in = True\<rparr>"

definition line_in :: "string \<Rightarrow> rat \<Rightarrow> rat \<Rightarrow> item_in" where
  "line_in d q u =
     Object \<lparr>description_in = Given d, quantity_in = Given (Number (to_double q)),
       unit_price_in = Given (Number (to_double u)), item_rest_in = True\<rparr>"

text \<open>The specification's example: two widgets at 9.99, tax 1.5, no discount.\<close>

definition widget_request :: Invoice_in where
  "widget_request =
     minimal_request\<lparr>items_in := Given [line_in ''Widget'' 2 (999 / 100)],
       tax_in := Given (Number (to_double (3 / 2))), discount_in := Given (Number (to_double 0))\<rparr>"


text \<open>The specification's example of the clamp: no items, no tax, a discount of 5.\<close>

definition discount_only_request :: Invoice_in where
  "discount_only_request =
     minimal_request\<lparr>items_in := Given [], tax_in := Given (Number (to_double 0)),
       discount_in := Given (Number (to_double 5))\<rparr>"

text \<open>One line of 0.004 and a tax of 0.004: the sum rounds to 0.00, the total does not.\<close>

definition small_amounts_request :: Invoice_in where
  "small_amounts_request =
     minimal_request\<lparr>items_in := Given [line_in ''Washer'' 1 (4 / 1000)],
       tax_in := Given (Number (to_double (4 / 1000))), discount_in := Given (Number (to_double 0))\<rparr>"




definition empty_store :: "database option" where
  "empty_store = Some (\<lambda>collection_name. [])"

definition an_oid :: oid where
  "an_oid = Oid ''65a1b2c3d4e5f60718293a4b''"

text \<open>
  A store with one invoice that has few of the public keys, a creation time and a field
  that is not for the public.
\<close>

definition sparse_store :: "database option" where
  "sparse_store =
     Some (\<lambda>collection_name.
       if collection_name = ''invoice''
       then [\<lparr>doc_id = Some an_oid,
              doc_fields =
                [(''customer_name'', PStr ''Ada Lovelace''),
                 (''issue_date'', PDate (Date 2024 1 31)),
                 (''created_at'', PDatetime (Date 2024 1 31) 9 30 0 0),
                 (''internal_note'', PStr ''call back'')]\<rparr>]
       else [])"

definition sparse_public_view :: pydict where
  "sparse_public_view =
     [(''id'', PStr ''65a1b2c3d4e5f60718293a4b''), (''invoice_number'', PNone),
      (''customer_name'', PStr ''Ada Lovelace''), (''customer_email'', PNone),
      (''customer_address'', PNone), (''issue_date'', PStr ''2024-01-31''),
      (''due_date'', PNone), (''currency'', PNone), (''items'', PList []), (''notes'', PNone),
      (''status'', PNone), (''subtotal'', PNone), (''tax'', PNone), (''discount'', PNone),
      (''total'', PNone)]"


text \<open>What validation makes of these bodies.\<close>

definition minimal_payload :: Invoice where
  "minimal_payload =
     \<lparr>customer_name = ''Ada Lovelace'', customer_email = ''ada@example.com'',
      customer_address = None, invoice_number = None, issue_date = Date 2024 1 31,
      due_date = None, currency = ''USD'', items = [], notes' = None, status = ''unpaid'',
      subtotal = Finite 0, tax = Finite 0, discount = Finite 0, total = Finite 0\<rparr>"

definition line :: "string \<Rightarrow> rat \<Rightarrow> rat \<Rightarrow> InvoiceItem" where
  "line d q u = \<lparr>description = d, quantity = to_double q, unit_price = to_double u\<rparr>"

definition widget_payload :: Invoice where
  "widget_payload =
     minimal_payload\<lparr>items := [line ''Widget'' 2 (999 / 100)], tax := to_double (3 / 2)\<rparr>"

definition discount_only_payload :: Invoice where
  "discount_only_payload = minimal_payload\<lparr>discount := to_double 5\<rparr>"

definition small_amounts_payload :: Invoice where
  "small_amounts_payload =
     minimal_payload\<lparr>items := [line ''Washer'' 1 (4 / 1000)], tax := to_double (4 / 1000)\<rparr>"


section \<open>Creating an invoice: the stored totals\<close>

lemma create_invoice_connected:
  "create_invoice (Some d) new_id p =
     (Some (d(''invoice'' := d ''invoice'' @
        [\<lparr>doc_id = Some new_id,
          doc_fields = model_dump (p\<lparr>
            subtotal := py_round (py_sum (map (\<lambda>item. py_mul (quantity item) (unit_price item)) (items p))) 2,
            total := py_round (py_max (py_sub (py_add
                (py_sum (map (\<lambda>item. py_mul (quantity item) (unit_price item)) (items p)))
                (tax p)) (discount p)) (Finite 0)) 2\<rparr>)\<rparr>])),
      Inr \<lparr>id' = str_oid new_id, share_url = ''/public/invoices/'' @ str_oid new_id\<rparr>)"
  by (simp add: create_invoice_def create_document_def Let_def)

lemma model_dump_subtotal: "map_of (model_dump p) ''subtotal'' = Some (PFloat (subtotal p))"
  by (simp add: model_dump_def)

lemma model_dump_total: "map_of (model_dump p) ''total'' = Some (PFloat (total p))"
  by (simp add: model_dump_def)

lemma model_dump_status: "map_of (model_dump p) ''status'' = Some (PStr (status p))"
  by (simp add: model_dump_def)

text \<open>An accepted body, with a store connected, appends one document to the collection.\<close>

lemma post_accepted:
  assumes "validate_Invoice body = Inr p" and "db \<noteq> None"
  shows "\<exists>doc. invoices (fst (post_api_invoices db new_id body)) = invoices db @ [doc] \<and>
           doc_fields doc = model_dump (p\<lparr>
             subtotal := py_round (py_sum (map (\<lambda>item. py_mul (quantity item) (unit_price item)) (items p))) 2,
             total := py_round (py_max (py_sub (py_add
                (py_sum (map (\<lambda>item. py_mul (quantity item) (unit_price item)) (items p)))
                (tax p)) (discount p)) (Finite 0)) 2\<rparr>)"
proof -
  from assms(2) obtain d where d: "db = Some d" by auto
  show ?thesis
    unfolding d post_api_invoices_def
    by (simp add: assms(1) create_invoice_connected invoices_def)
qed

lemma validate_widget_request: "validate_Invoice widget_request = Inr widget_payload"
  by code_simp

lemma validate_discount_only_request: "validate_Invoice discount_only_request = Inr discount_only_payload"
  by code_simp

lemma validate_small_amounts_request: "validate_Invoice small_amounts_request = Inr small_amounts_payload"
  by code_simp

lemma empty_store_connected: "empty_store \<noteq> None"
  by (simp add: empty_store_def)




text \<open>
  C2, as stated: the stored total would be computed from the stored subtotal, which is
  already rounded. The handler adds the tax to the unrounded sum. One line of 0.004 with a
  tax of 0.004: the stored subtotal is 0.0 and the stored total is 0.01, where the
  claim's formula gives \<open>round(max(0.0 + 0.004 - 0, 0), 2) = 0.0\<close>.
\<close>

theorem stored_total_not_from_stored_subtotal:
  "map (\<lambda>doc. map_of (doc_fields doc) ''total'')
       (invoices (fst (post_api_invoices empty_store an_oid small_amounts_request))) =
     [Some (PFloat (to_double (1 / 100)))] \<and>
   map (\<lambda>doc. map_of (doc_fields doc) ''subtotal'')
       (invoices (fst (post_api_invoices empty_store an_oid small_amounts_request))) =
     [Some (PFloat (Finite 0))] \<and>
   py_round (py_max (py_sub (py_add (Finite 0) (to_double (4 / 1000))) (to_double 0)) (Finite 0)) 2
     = Finite 0 \<and>
   to_double (1 / 100) \<noteq> Finite 0"
  by code_simp

text \<open>
  C2, amended: for every body the route accepts, the stored total is
  \<open>round(max(s + tax - discount, 0), 2)\<close>, where \<open>s\<close> is the sum of the line amounts
  before it is rounded for storing.
\<close>

theorem stored_total_from_unrounded_sum:
  assumes "validate_Invoice body = Inr payload" and "db \<noteq> None"
  shows "\<exists>doc. invoices (fst (post_api_invoices db new_id body)) = invoices db @ [doc] \<and>
           map_of (doc_fields doc) ''total'' =
             Some (PFloat (py_round (py_max (py_sub (py_add
               (py_sum (map (\<lambda>item. py_mul (quantity item) (unit_price item)) (items payload)))
               (tax payload)) (discount payload)) (Finite 0)) 2))"
proof -
  from post_accepted [OF assms, of new_id] obtain doc where
    "invoices (fst (post_api_invoices db new_id body)) = invoices db @ [doc]" and
    "doc_fields doc = model_dump (payload\<lparr>
             subtotal := py_round (py_sum (map (\<lambda>item. py_mul (quantity item) (unit_price item)) (items payload))) 2,
             total := py_round (py_max (py_sub (py_add
                (py_sum (map (\<lambda>item. py_mul (quantity item) (unit_price item)) (items payload)))
                (tax payload)) (discount payload)) (Finite 0)) 2\<rparr>)"
    by blast
  then show ?thesis by (auto simp: model_dump_total)
qed

theorem stored_total_from_unrounded_sum_witness:
  "validate_Invoice small_amounts_request = Inr small_amounts_payload \<and> empty_store \<noteq> None \<and>
   (\<exists>doc. invoices (fst (post_api_invoices empty_store an_oid small_amounts_request)) = invoices empty_store @ [doc] \<and>
      map_of (doc_fields doc) ''total'' =
        Some (PFloat (py_round (py_max (py_sub (py_add
          (py_sum (map (\<lambda>item. py_mul (quantity item) (unit_price item)) (items small_amounts_payload)))
          (tax small_amounts_payload)) (discount small_amounts_payload)) (Finite 0)) 2)))"
  using stored_total_from_unrounded_sum [OF validate_small_amounts_request empty_store_connected, of an_oid]
    validate_small_amounts_request empty_store_connected
  by simp


section \<open>The clamp\<close>

lemma round_half_even_nonneg: "0 \<le> x \<Longrightarrow> 0 \<le> round_half_even x"
  by (auto simp: round_half_even_def Let_def)

lemma round_half_even_zero: "round_half_even 0 = 0"
  by (simp add: round_half_even_def)

lemma pow2_pos: "0 < pow2 k"
  by (simp add: pow2_def)

lemma to_double_pos_sign:
  assumes "0 \<le> a"
  shows "to_double_pos a = PosInf \<or> (\<exists>r. to_double_pos a = Finite r \<and> 0 \<le> r)"
proof -
  have "0 \<le> a / pow2 q" for q
    using assms pow2_pos [of q] by simp
  then have "0 \<le> rat_of_int (round_half_even (a / pow2 q)) * pow2 q" for q
    using round_half_even_nonneg [of "a / pow2 q"] pow2_pos [of q] by simp
  then show ?thesis
    by (simp add: to_double_pos_def Let_def)
qed

lemma to_double_nonneg:
  assumes "0 \<le> x"
  shows "to_double x = PosInf \<or> (\<exists>r. to_double x = Finite r \<and> 0 \<le> r)"
  using assms to_double_pos_sign [of x] by (auto simp: to_double_def)

lemma to_double_nonpos:
  assumes "x \<le> 0"
  shows "to_double x = NegInf \<or> (\<exists>r. to_double x = Finite r \<and> r \<le> 0)"
proof (cases "x = 0")
  case True
  then show ?thesis by (simp add: to_double_def)
next
  case False
  with assms have "0 \<le> - x" "\<not> 0 < x" by simp_all
  with to_double_pos_sign [of "- x"] False show ?thesis
    by (auto simp: to_double_def)
qed

lemma py_round_zero: "py_round (Finite 0) 2 = Finite 0"
  by (simp add: round_half_even_zero to_double_def)

lemma py_round_nonneg:
  assumes "0 \<le> x"
  shows "\<not> py_lt (py_round (Finite x) n) (Finite 0)"
proof -
  have "0 \<le> rat_of_int (round_half_even (x * 10 ^ n)) / 10 ^ n"
    using round_half_even_nonneg [of "x * 10 ^ n"] assms by simp
  from to_double_nonneg [OF this] assms show ?thesis by auto
qed

lemma clamped_total_not_negative:
  "\<not> py_lt (py_round (py_max t (Finite 0)) 2) (Finite 0)"
proof (cases t)
  case (Finite x)
  then show ?thesis
    using py_round_nonneg [of x 2] py_round_nonneg [of 0 2]
    by (cases "x < 0") (simp_all add: py_max_def del: py_round.simps)
qed (simp_all add: py_max_def round_half_even_zero to_double_def)

lemma clamped_total_zero:
  assumes "py_lt a d"
  shows "py_round (py_max (py_sub a d) (Finite 0)) 2 = Finite 0"
proof -
  have "py_sub a d = NegInf \<or> (\<exists>r. py_sub a d = Finite r \<and> r \<le> 0)"
  proof (cases a)
    case (Finite x)
    show ?thesis
    proof (cases d)
      case (Finite y)
      with \<open>a = Finite x\<close> assms have "x - y \<le> 0" by simp
      from to_double_nonpos [OF this] show ?thesis
        by (simp add: py_sub_def \<open>a = Finite x\<close> Finite)
    qed (use assms Finite in \<open>simp_all add: py_sub_def\<close>)
  next
    case NegInf
    with assms show ?thesis by (cases d) (simp_all add: py_sub_def)
  next
    case PosInf
    with assms show ?thesis by (cases d) simp_all
  next
    case NaN
    with assms show ?thesis by simp
  qed
  then show ?thesis
    by (auto simp: py_max_def py_round_zero simp del: py_round.simps)
qed

lemma to_double_5: "to_double 5 = Finite 5"
  by code_simp

lemma to_double_0: "to_double 0 = Finite 0"
  by (simp add: to_double_def)

text \<open>
  C3. For every body the route accepts, the stored total is never negative (it is at least
  zero, or NaN when the amounts are infinite); when the discount exceeds \<open>subtotal + tax\<close>,
  the sum the handler subtracts it from, the stored total is 0; and with no items, no tax
  and a discount of 5 the stored subtotal and total are both 0.
\<close>

theorem stored_total_never_negative:
  assumes "validate_Invoice body = Inr payload" and "db \<noteq> None"
  shows "\<exists>doc t. invoices (fst (post_api_invoices db new_id body)) = invoices db @ [doc] \<and>
           map_of (doc_fields doc) ''total'' = Some (PFloat t) \<and>
           \<not> py_lt t (Finite 0) \<and>
           (py_lt (py_add (py_sum (map (\<lambda>item. py_mul (quantity item) (unit_price item)) (items payload)))
                     (tax payload)) (discount payload) \<longrightarrow> t = Finite 0) \<and>
           (items payload = [] \<and> tax payload = Finite 0 \<and> discount payload = Finite 5 \<longrightarrow>
              map_of (doc_fields doc) ''subtotal'' = Some (PFloat (Finite 0)) \<and> t = Finite 0)"
proof -
  let ?s = "py_sum (map (\<lambda>item. py_mul (quantity item) (unit_price item)) (items payload))"
  let ?t = "py_round (py_max (py_sub (py_add ?s (tax payload)) (discount payload)) (Finite 0)) 2"
  from post_accepted [OF assms, of new_id] obtain doc where
    appended: "invoices (fst (post_api_invoices db new_id body)) = invoices db @ [doc]" and
    fields: "doc_fields doc = model_dump (payload\<lparr>subtotal := py_round ?s 2, total := ?t\<rparr>)"
    by blast
  have total: "map_of (doc_fields doc) ''total'' = Some (PFloat ?t)"
    by (simp add: fields model_dump_total)
  have subtotal: "map_of (doc_fields doc) ''subtotal'' = Some (PFloat (py_round ?s 2))"
    by (simp add: fields model_dump_subtotal)
  have not_negative: "\<not> py_lt ?t (Finite 0)"
    by (rule clamped_total_not_negative)
  have clamp: "py_lt (py_add ?s (tax payload)) (discount payload) \<longrightarrow> ?t = Finite 0"
    using clamped_total_zero by blast
  have example: "map_of (doc_fields doc) ''subtotal'' = Some (PFloat (Finite 0)) \<and> ?t = Finite 0"
    if "items payload = []" "tax payload = Finite 0" "discount payload = Finite 5"
  proof -
    have s: "?s = Finite 0" by (simp add: that py_sum_def)
    have "py_lt (py_add ?s (tax payload)) (discount payload)"
      by (simp add: that py_sum_def to_double_0)
    with clamp have "?t = Finite 0" by blast
    moreover have "py_round ?s 2 = Finite 0"
      unfolding s by (rule py_round_zero)
    ultimately show ?thesis using subtotal by simp
  qed
  from appended total not_negative clamp example show ?thesis by blast
qed

theorem stored_total_never_negative_witness:
  "validate_Invoice discount_only_request = Inr discount_only_payload \<and> empty_store \<noteq> None \<and>
   items discount_only_payload = [] \<and> tax discount_only_payload = Finite 0 \<and>
   discount discount_only_payload = Finite 5 \<and>
   (\<exists>doc. invoices (fst (post_api_invoices empty_store an_oid discount_only_request)) = invoices empty_store @ [doc] \<and>
      map_of (doc_fields doc) ''subtotal'' = Some (PFloat (Finite 0)) \<and>
      map_of (doc_fields doc) ''total'' = Some (PFloat (Finite 0)))"
proof -
  have payload: "items discount_only_payload = []" "tax discount_only_payload = Finite 0"
    "discount discount_only_payload = Finite 5"
    by (simp_all add: discount_only_payload_def minimal_payload_def to_double_5)
  from stored_total_never_negative [OF validate_discount_only_request empty_store_connected, of an_oid]
    payload
  have "\<exists>doc. invoices (fst (post_api_invoices empty_store an_oid discount_only_request)) = invoices empty_store @ [doc] \<and>
      map_of (doc_fields doc) ''subtotal'' = Some (PFloat (Finite 0)) \<and>
      map_of (doc_fields doc) ''total'' = Some (PFloat (Finite 0))"
    by blast
  with payload validate_discount_only_request empty_store_connected show ?thesis by blast
qed


section \<open>The specification's worked example\<close>

lemma widget_subtotal:
  "py_round (py_sum [py_mul (to_double 2) (to_double (999 / 100))]) 2 = to_double (1998 / 100)"
  by code_simp

lemma widget_total:
  "py_round (py_max (py_sub (py_add (py_sum [py_mul (to_double 2) (to_double (999 / 100))])
      (to_double (3 / 2))) (to_double 0)) (Finite 0)) 2 = to_double (2148 / 100)"
  by code_simp

text \<open>
  C8. A body whose items are two widgets at 9.99, with tax 1.5 and discount 0, is stored
  with subtotal 19.98 and total 21.48: the floats those decimals denote.
\<close>

theorem widget_example_totals:
  assumes "validate_Invoice body = Inr payload" and "db \<noteq> None"
    and "items payload = [line ''Widget'' 2 (999 / 100)]"
    and "tax payload = to_double (3 / 2)" and "discount payload = to_double 0"
  shows "\<exists>doc. invoices (fst (post_api_invoices db new_id body)) = invoices db @ [doc] \<and>
           map_of (doc_fields doc) ''subtotal'' = Some (PFloat (to_double (1998 / 100))) \<and>
           map_of (doc_fields doc) ''total'' = Some (PFloat (to_double (2148 / 100)))"
proof -
  from post_accepted [OF assms(1,2), of new_id] obtain doc where
    "invoices (fst (post_api_invoices db new_id body)) = invoices db @ [doc]" and
    "doc_fields doc = model_dump (payload\<lparr>
             subtotal := py_round (py_sum (map (\<lambda>item. py_mul (quantity item) (unit_price item)) (items payload))) 2,
             total := py_round (py_max (py_sub (py_add
                (py_sum (map (\<lambda>item. py_mul (quantity item) (unit_price item)) (items payload)))
                (tax payload)) (discount payload)) (Finite 0)) 2\<rparr>)"
    by blast
  then show ?thesis
    by (auto simp: assms(3,4,5) line_def model_dump_subtotal model_dump_total
        widget_subtotal widget_total)
qed

theorem widget_example_totals_witness:
  "validate_Invoice widget_request = Inr widget_payload \<and> empty_store \<noteq> None \<and>
   items widget_payload = [line ''Widget'' 2 (999 / 100)] \<and>
   tax widget_payload = to_double (3 / 2) \<and> discount widget_payload = to_double 0 \<and>
   (\<exists>doc. invoices (fst (post_api_invoices empty_store an_oid widget_request)) = invoices empty_store @ [doc] \<and>
      map_of (doc_fields doc) ''subtotal'' = Some (PFloat (to_double (1998 / 100))) \<and>
      map_of (doc_fields doc) ''total'' = Some (PFloat (to_double (2148 / 100))))"
proof -
  have payload: "items widget_payload = [line ''Widget'' 2 (999 / 100)]"
    "tax widget_payload = to_double (3 / 2)" "discount widget_payload = to_double 0"
    by (simp_all add: widget_payload_def minimal_payload_def to_double_0)
  from widget_example_totals [OF validate_widget_request empty_store_connected payload, of an_oid]
    payload validate_widget_request empty_store_connected
  show ?thesis by blast
qed



section \<open>Reading an invoice\<close>

lemma find_one_Some: "find_one docs i = Some doc \<Longrightarrow> doc_id doc = Some i \<and> doc \<in> set docs"
  by (auto simp: find_one_def find_Some_iff)

lemma find_one_None: "find_one docs i = None \<longleftrightarrow> (\<forall>doc\<in>set docs. doc_id doc \<noteq> Some i)"
  by (auto simp: find_one_def find_None_iff)

lemma iso_key_absent: "map_of (iso_key d key) k = None \<longleftrightarrow> map_of d k = None"
  by (auto simp: iso_key_def update_conv' split: option.splits)

lemma iso_key_other: "key \<noteq> k \<Longrightarrow> map_of (iso_key d key) k = map_of d k"
  by (auto simp: iso_key_def update_conv' split: option.splits)

lemma serialize_invoice_id:
  "doc_id doc = Some i \<Longrightarrow> get (serialize_invoice doc) ''id'' = PStr (str_oid i)"
  by (simp add: serialize_invoice_def iso_key_other update_conv' get_def get_default_def)

lemma serialize_invoice_absent:
  "doc_id doc = Some i \<Longrightarrow> k \<noteq> ''id'' \<Longrightarrow> map_of (doc_fields doc) k = None \<Longrightarrow>
   map_of (serialize_invoice doc) k = None"
  by (simp add: serialize_invoice_def iso_key_absent update_conv')

lemma public_invoice_found:
  assumes "public_invoice db s = Inr r"
  shows "\<exists>i doc. ObjectId s = Some i \<and> find_one (invoices db) i = Some doc \<and> doc_id doc = Some i \<and>
           r = public_view (serialize_invoice doc)"
  using assms
  by (auto simp: public_invoice_def invoices_def Let_def split: option.splits if_splits
      dest: find_one_Some)

lemma public_view_present: "\<forall>k\<in>set public_keys. \<exists>v. map_of (public_view d) k = Some v"
  by (simp add: public_view_def public_keys_def)

lemma public_view_items:
  "map_of (public_view d) ''items'' = Some (get_default d ''items'' (PList []))"
  by (simp add: public_view_def)

lemma public_view_other:
  "\<forall>k\<in>set public_keys. k \<noteq> ''items'' \<longrightarrow> map_of (public_view d) k = Some (get d k)"
  by (simp add: public_view_def public_keys_def)

text \<open>
  C4. Whatever the stored document holds, a successful answer of the public route has
  exactly the fifteen keys of the allowlist, each once, and no other key.
\<close>

theorem public_view_keys:
  assumes "public_invoice db invoice_id = Inr r"
  shows "map fst r = public_keys"
  using public_invoice_found [OF assms] by (auto simp: public_keys_def public_view_def)

text \<open>
  C5, as stated: both read routes answer 404 exactly when the identifier is well formed
  and no document has it. Neither handler checks that a store is connected: with \<open>db\<close>
  equal to \<open>None\<close>, \<open>db["invoice"]\<close> raises \<open>TypeError\<close>, and a well-formed identifier that
  no document has is answered with 500.
\<close>

theorem lookup_without_store_answers_500:
  "ObjectId ''000000000000000000000000'' = Some (Oid ''000000000000000000000000'') \<and>
   invoices None = [] \<and>
   response_status (get_invoice None ''000000000000000000000000'') = 500 \<and>
   response_status (public_invoice None ''000000000000000000000000'') = 500"
  by (simp add: invoices_def) code_simp

text \<open>
  C5, amended. Both read routes answer 400 exactly when \<open>ObjectId\<close> rejects the
  identifier, whether a store is connected or not. With a store connected, both answer
  404 exactly when \<open>ObjectId\<close> accepts the identifier and no document of the collection
  has it. With no store connected, both answer 500 exactly when \<open>ObjectId\<close> accepts the
  identifier, and never 404. In every case, whenever the handler of one route raises, the
  handler of the other raises the same error.
\<close>

theorem lookup_statuses:
  "(response_status (get_invoice db s) = 400 \<longleftrightarrow> ObjectId s = None) \<and>
   (response_status (public_invoice db s) = 400 \<longleftrightarrow> ObjectId s = None) \<and>
   (db \<noteq> None \<longrightarrow>
      (response_status (get_invoice db s) = 404 \<longleftrightarrow>
         (\<exists>i. ObjectId s = Some i \<and> (\<forall>doc\<in>set (invoices db). doc_id doc \<noteq> Some i))) \<and>
      (response_status (public_invoice db s) = 404 \<longleftrightarrow>
         (\<exists>i. ObjectId s = Some i \<and> (\<forall>doc\<in>set (invoices db). doc_id doc \<noteq> Some i)))) \<and>
   (db = None \<longrightarrow>
      (response_status (get_invoice db s) = 500 \<longleftrightarrow> ObjectId s \<noteq> None) \<and>
      (response_status (public_invoice db s) = 500 \<longleftrightarrow> ObjectId s \<noteq> None) \<and>
      response_status (get_invoice db s) \<noteq> 404 \<and>
      response_status (public_invoice db s) \<noteq> 404) \<and>
   failure (get_invoice db s) = failure (public_invoice db s)"
proof -
  have bad: "(response_status (get_invoice db s) = 400 \<longleftrightarrow> ObjectId s = None) \<and>
      (response_status (public_invoice db s) = 400 \<longleftrightarrow> ObjectId s = None)"
    by (auto simp: get_invoice_def public_invoice_def response_status_def Let_def
        split: option.splits)
  have absent: "db \<noteq> None \<longrightarrow>
      (response_status (get_invoice db s) = 404 \<longleftrightarrow>
         (\<exists>i. ObjectId s = Some i \<and> (\<forall>doc\<in>set (invoices db). doc_id doc \<noteq> Some i))) \<and>
      (response_status (public_invoice db s) = 404 \<longleftrightarrow>
         (\<exists>i. ObjectId s = Some i \<and> (\<forall>doc\<in>set (invoices db). doc_id doc \<noteq> Some i)))"
    by (auto simp: get_invoice_def public_invoice_def response_status_def invoices_def
        find_one_None Let_def split: option.splits dest: find_one_Some)
  have no_store: "db = None \<longrightarrow>
      (response_status (get_invoice db s) = 500 \<longleftrightarrow> ObjectId s \<noteq> None) \<and>
      (response_status (public_invoice db s) = 500 \<longleftrightarrow> ObjectId s \<noteq> None) \<and>
      response_status (get_invoice db s) \<noteq> 404 \<and>
      response_status (public_invoice db s) \<noteq> 404"
    by (auto simp: get_invoice_def public_invoice_def response_status_def Let_def
        split: option.splits)
  have same: "failure (get_invoice db s) = failure (public_invoice db s)"
    by (auto simp: get_invoice_def public_invoice_def failure_def Let_def split: option.splits)
  from bad absent no_store same show ?thesis by (intro conjI) simp_all
qed

text \<open>
  C10. In a successful answer of the public route every one of the fifteen keys is
  present; a key the stored document does not have is \<open>None\<close>, except \<open>items\<close>, which
  is the empty list; \<open>id\<close> is the string of the document's identifier.
\<close>

theorem public_view_fills_absent_keys:
  assumes "public_invoice db invoice_id = Inr r"
  shows "\<exists>i doc. ObjectId invoice_id = Some i \<and> find_one (invoices db) i = Some doc \<and>
     (\<forall>k\<in>set public_keys. \<exists>v. map_of r k = Some v) \<and>
     (\<forall>k\<in>set public_keys. k \<noteq> ''id'' \<and> k \<noteq> ''items'' \<and> map_of (doc_fields doc) k = None \<longrightarrow>
        map_of r k = Some PNone) \<and>
     (map_of (doc_fields doc) ''items'' = None \<longrightarrow> map_of r ''items'' = Some (PList [])) \<and>
     map_of r ''id'' = Some (PStr (str_oid i))"
proof -
  from public_invoice_found [OF assms] obtain i doc where
    i: "ObjectId invoice_id = Some i" and found: "find_one (invoices db) i = Some doc" and
    id: "doc_id doc = Some i" and r: "r = public_view (serialize_invoice doc)"
    by blast
  have present: "\<forall>k\<in>set public_keys. \<exists>v. map_of r k = Some v"
    unfolding r by (rule public_view_present)
  have absent: "\<forall>k\<in>set public_keys. k \<noteq> ''id'' \<and> k \<noteq> ''items'' \<and> map_of (doc_fields doc) k = None \<longrightarrow>
        map_of r k = Some PNone"
  proof (intro ballI impI)
    fix k
    assume k: "k \<in> set public_keys"
      and "k \<noteq> ''id'' \<and> k \<noteq> ''items'' \<and> map_of (doc_fields doc) k = None"
    then have "k \<noteq> ''id''" "k \<noteq> ''items''" "map_of (doc_fields doc) k = None" by simp_all
    from serialize_invoice_absent [OF id this(1,3)]
    have "get (serialize_invoice doc) k = PNone" by (simp add: get_def get_default_def)
    moreover from public_view_other k \<open>k \<noteq> ''items''\<close>
    have "map_of r k = Some (get (serialize_invoice doc) k)" unfolding r by blast
    ultimately show "map_of r k = Some PNone" by simp
  qed
  have items: "map_of (doc_fields doc) ''items'' = None \<longrightarrow> map_of r ''items'' = Some (PList [])"
  proof
    assume "map_of (doc_fields doc) ''items'' = None"
    from serialize_invoice_absent [OF id _ this]
    have "map_of (serialize_invoice doc) ''items'' = None" by simp
    then show "map_of r ''items'' = Some (PList [])"
      unfolding r by (simp add: public_view_items get_default_def)
  qed
  have rid: "map_of r ''id'' = Some (PStr (str_oid i))"
    unfolding r by (simp add: public_view_def serialize_invoice_id [OF id])
  show ?thesis
    using i found present absent items rid by (intro exI conjI)
qed


lemma sparse_public_invoice:
  "public_invoice sparse_store ''65A1B2C3D4E5F60718293A4B'' = Inr sparse_public_view"
  by code_simp

theorem public_view_keys_witness:
  "public_invoice sparse_store ''65A1B2C3D4E5F60718293A4B'' = Inr sparse_public_view \<and>
   map fst sparse_public_view = public_keys"
  using public_view_keys [OF sparse_public_invoice] sparse_public_invoice by simp

theorem public_view_fills_absent_keys_witness:
  "public_invoice sparse_store ''65A1B2C3D4E5F60718293A4B'' = Inr sparse_public_view \<and>
   (\<exists>i doc. ObjectId ''65A1B2C3D4E5F60718293A4B'' = Some i \<and>
      find_one (invoices sparse_store) i = Some doc \<and>
      (\<forall>k\<in>set public_keys. \<exists>v. map_of sparse_public_view k = Some v) \<and>
      (\<forall>k\<in>set public_keys. k \<noteq> ''id'' \<and> k \<noteq> ''items'' \<and> map_of (doc_fields doc) k = None \<longrightarrow>
         map_of sparse_public_view k = Some PNone) \<and>
      (map_of (doc_fields doc) ''items'' = None \<longrightarrow> map_of sparse_public_view ''items'' = Some (PList [])) \<and>
      map_of sparse_public_view ''id'' = Some (PStr (str_oid i)))"
  using public_view_fills_absent_keys [OF sparse_public_invoice] sparse_public_invoice
  by (intro conjI)

lemma not_an_id: "ObjectId ''not-an-id'' = None"
  by code_simp

lemma unknown_id: "ObjectId ''000000000000000000000000'' = Some (Oid ''000000000000000000000000'')"
  by code_simp

text \<open>Eight bytes with a blank after each: 24 characters, which \<open>ObjectId\<close> accepts.\<close>

lemma spaced_id: "ObjectId ''00 00 00 00 00 00 00 00 '' = Some (Oid ''0000000000000000'')"
  by code_simp

lemma sparse_store_invoices:
  "sparse_store \<noteq> None \<and> (\<forall>doc\<in>set (invoices sparse_store). doc_id doc = Some an_oid)"
  by (simp add: sparse_store_def invoices_def)

theorem lookup_statuses_witness:
  "sparse_store \<noteq> None \<and> ObjectId ''not-an-id'' = None \<and>
   response_status (get_invoice sparse_store ''not-an-id'') = 400 \<and>
   response_status (public_invoice sparse_store ''not-an-id'') = 400 \<and>
   response_status (get_invoice None ''not-an-id'') = 400 \<and>
   response_status (public_invoice None ''not-an-id'') = 400 \<and>
   response_status (get_invoice sparse_store ''000000000000000000000000'') = 404 \<and>
   response_status (public_invoice sparse_store ''000000000000000000000000'') = 404 \<and>
   response_status (get_invoice sparse_store ''00 00 00 00 00 00 00 00 '') = 404 \<and>
   response_status (public_invoice sparse_store ''00 00 00 00 00 00 00 00 '') = 404 \<and>
   response_status (get_invoice None ''000000000000000000000000'') = 500 \<and>
   response_status (public_invoice None ''000000000000000000000000'') = 500"
proof -
  have absent: "\<exists>i. ObjectId ''000000000000000000000000'' = Some i \<and>
      (\<forall>doc\<in>set (invoices sparse_store). doc_id doc \<noteq> Some i)"
    using sparse_store_invoices by (simp add: unknown_id an_oid_def)
  have spaced: "\<exists>i. ObjectId ''00 00 00 00 00 00 00 00 '' = Some i \<and>
      (\<forall>doc\<in>set (invoices sparse_store). doc_id doc \<noteq> Some i)"
    using sparse_store_invoices by (simp add: spaced_id an_oid_def)
  from lookup_statuses [of sparse_store "''not-an-id''"] not_an_id
  have bad: "response_status (get_invoice sparse_store ''not-an-id'') = 400"
    "response_status (public_invoice sparse_store ''not-an-id'') = 400"
    by blast+
  from lookup_statuses [of None "''not-an-id''"] not_an_id
  have bad_no_store: "response_status (get_invoice None ''not-an-id'') = 400"
    "response_status (public_invoice None ''not-an-id'') = 400"
    by blast+
  from lookup_statuses [of sparse_store "''000000000000000000000000''"] absent sparse_store_invoices
  have unknown: "response_status (get_invoice sparse_store ''000000000000000000000000'') = 404"
    "response_status (public_invoice sparse_store ''000000000000000000000000'') = 404"
    by blast+
  from lookup_statuses [of sparse_store "''00 00 00 00 00 00 00 00 ''"] spaced sparse_store_invoices
  have short: "response_status (get_invoice sparse_store ''00 00 00 00 00 00 00 00 '') = 404"
    "response_status (public_invoice sparse_store ''00 00 00 00 00 00 00 00 '') = 404"
    by blast+
  from lookup_statuses [of None "''000000000000000000000000''"] unknown_id
  have no_store: "response_status (get_invoice None ''000000000000000000000000'') = 500"
    "response_status (public_invoice None ''000000000000000000000000'') = 500"
    by simp_all
  from bad bad_no_store unknown short no_store not_an_id sparse_store_invoices
  show ?thesis by (intro conjI) simp_all
qed


section \<open>Validation\<close>


lemma ap_Inr_iff: "ap f x = Inr y \<longleftrightarrow> (\<exists>g v. f = Inr g \<and> x = Inr v \<and> y = g v)"
  by (cases f; cases x) auto























text \<open>
  The violations above are the ones validation checks. That a text is not empty is not
  among them, and the schema does not check it: a body whose customer name is the empty
  string is accepted.
\<close>

lemma empty_customer_name_accepted:
  "validate_Invoice (minimal_request\<lparr>customer_name_in := Given []\<rparr>) =
     Inr (minimal_payload\<lparr>customer_name := []\<rparr>)"
  by code_simp

lemma Field_status_Missing: "Field (Some d) obj loc Missing = Inr d"
  by (simp add: Field_def)

lemma Field_status_Given: "Field dflt obj loc (Given v) = Inr v"
  by (simp add: Field_def)

lemma renderable_body_status:
  "renderable_body (body\<lparr>status_in := Given s\<rparr>) = renderable_body (body\<lparr>status_in := Missing\<rparr>)"
  by (simp add: renderable_body_def renderable_def plain_def)

lemma validate_status:
  assumes "validate_Invoice (body\<lparr>status_in := Missing\<rparr>) = Inr payload"
  shows "status payload = ''unpaid'' \<and>
         validate_Invoice (body\<lparr>status_in := Given s\<rparr>) = Inr (payload\<lparr>status := s\<rparr>)"
  using assms
  by (auto simp: validate_Invoice_def ap_Inr_iff Field_status_Missing Field_status_Given
      mk_Invoice_def renderable_body_status Let_def)



text \<open>
  C9. The status is not checked against the four conventional values: if a body is
  accepted with its status left out, it is accepted with any string as status, which is
  stored as it is; with the status left out, \<open>unpaid\<close> is stored.
\<close>

theorem status_is_free_text:
  assumes "validate_Invoice (body\<lparr>status_in := Missing\<rparr>) = Inr payload" and "db \<noteq> None"
  shows "(\<exists>doc. invoices (fst (post_api_invoices db new_id (body\<lparr>status_in := Given s\<rparr>))) =
                 invoices db @ [doc] \<and>
               map_of (doc_fields doc) ''status'' = Some (PStr s)) \<and>
         (\<exists>doc. invoices (fst (post_api_invoices db new_id (body\<lparr>status_in := Missing\<rparr>))) =
                 invoices db @ [doc] \<and>
               map_of (doc_fields doc) ''status'' = Some (PStr ''unpaid''))"
proof -
  from validate_status [OF assms(1), of s] have
    unpaid: "status payload = ''unpaid''" and
    given: "validate_Invoice (body\<lparr>status_in := Given s\<rparr>) = Inr (payload\<lparr>status := s\<rparr>)"
    by simp_all
  from post_accepted [OF given assms(2), of new_id] have
    "\<exists>doc. invoices (fst (post_api_invoices db new_id (body\<lparr>status_in := Given s\<rparr>))) =
                 invoices db @ [doc] \<and>
               map_of (doc_fields doc) ''status'' = Some (PStr s)"
    by (auto simp: model_dump_status)
  moreover from post_accepted [OF assms, of new_id] unpaid have
    "\<exists>doc. invoices (fst (post_api_invoices db new_id (body\<lparr>status_in := Missing\<rparr>))) =
                 invoices db @ [doc] \<and>
               map_of (doc_fields doc) ''status'' = Some (PStr ''unpaid'')"
    by (auto simp: model_dump_status)
  ultimately show ?thesis by blast
qed

lemma validate_widget_request_no_status:
  "validate_Invoice (widget_request\<lparr>status_in := Missing\<rparr>) = Inr widget_payload"
  by code_simp

theorem status_is_free_text_witness:
  "validate_Invoice (widget_request\<lparr>status_in := Missing\<rparr>) = Inr widget_payload \<and>
   empty_store \<noteq> None \<and>
   (\<exists>doc. invoices (fst (post_api_invoices empty_store an_oid
              (widget_request\<lparr>status_in := Given ''on hold until Friday''\<rparr>))) =
            invoices empty_store @ [doc] \<and>
          map_of (doc_fields doc) ''status'' = Some (PStr ''on hold until Friday'')) \<and>
   (\<exists>doc. invoices (fst (post_api_invoices empty_store an_oid (widget_request\<lparr>status_in := Missing\<rparr>))) =
            invoices empty_store @ [doc] \<and>
          map_of (doc_fields doc) ''status'' = Some (PStr ''unpaid''))"
  using status_is_free_text [OF validate_widget_request_no_status empty_store_connected,
      of an_oid "''on hold until Friday''"]
    validate_widget_request_no_status empty_store_connected
  by (intro conjI) simp_all


















end
